theory Spec2Isabelle
  imports Complex_Main
begin

section \<open>Positional matching of transients against FRB localisation ellipses\<close>

text \<open>
  The development embeds the statistical core and the orchestration of
  \<^verbatim>\<open>transient_crossmatching.py\<close>. numpy's float64 values are idealised as real
  numbers. A float that is not finite (\<^verbatim>\<open>inf\<close> or \<^verbatim>\<open>nan\<close>, which numpy returns
  with a warning instead of raising) is the value \<open>None\<close> of \<open>real option\<close>; the model
  does not tell \<^verbatim>\<open>inf\<close> from \<^verbatim>\<open>nan\<close>. A raised exception is the \<open>Inl\<close> side of a sum.
\<close>

subsection \<open>Vectors and 2x2 matrices (numpy arrays)\<close>

type_synonym vec2 = "real \<times> real"

text \<open>A 2x2 array is the pair of its rows.\<close>

type_synonym mat2 = "vec2 \<times> vec2"

definition radians :: "real \<Rightarrow> real" where
  "radians x = x * pi / 180"

definition degrees :: "real \<Rightarrow> real" where
  "degrees x = x * 180 / pi"

definition vsub :: "vec2 \<Rightarrow> vec2 \<Rightarrow> vec2" where
  "vsub p q = (fst p - fst q, snd p - snd q)"


definition dot :: "vec2 \<Rightarrow> vec2 \<Rightarrow> real" where
  "dot u v = fst u * fst v + snd u * snd v"

text \<open>\<^verbatim>\<open>A @ B\<close> for two 2x2 arrays.\<close>

definition matmul :: "mat2 \<Rightarrow> mat2 \<Rightarrow> mat2" where
  "matmul A B =
     (case A of ((a00, a01), (a10, a11)) \<Rightarrow>
      case B of ((b00, b01), (b10, b11)) \<Rightarrow>
        ((a00 * b00 + a01 * b10, a00 * b01 + a01 * b11),
         (a10 * b00 + a11 * b10, a10 * b01 + a11 * b11)))"

text \<open>\<^verbatim>\<open>A @ v\<close> and \<^verbatim>\<open>v.T @ A\<close> for a 2x2 array and a vector of length 2.\<close>

definition matvec :: "mat2 \<Rightarrow> vec2 \<Rightarrow> vec2" where
  "matvec A v = (dot (fst A) v, dot (snd A) v)"

definition vecmat :: "vec2 \<Rightarrow> mat2 \<Rightarrow> vec2" where
  "vecmat v A =
     (case A of ((a00, a01), (a10, a11)) \<Rightarrow>
        (fst v * a00 + snd v * a10, fst v * a01 + snd v * a11))"

definition transpose2 :: "mat2 \<Rightarrow> mat2" where
  "transpose2 A = (case A of ((a00, a01), (a10, a11)) \<Rightarrow> ((a00, a10), (a01, a11)))"

definition np_diag :: "vec2 \<Rightarrow> mat2" where
  "np_diag d = ((fst d, 0), (0, snd d))"

definition det2 :: "mat2 \<Rightarrow> real" where
  "det2 A = (case A of ((a00, a01), (a10, a11)) \<Rightarrow> a00 * a11 - a01 * a10)"

definition symmetric2 :: "mat2 \<Rightarrow> bool" where
  "symmetric2 A \<longleftrightarrow> snd (fst A) = fst (snd A)"

text \<open>Sylvester's criterion for a symmetric 2x2 matrix to be positive definite.\<close>

definition positive_definite :: "mat2 \<Rightarrow> bool" where
  "positive_definite A \<longleftrightarrow> symmetric2 A \<and> 0 < fst (fst A) \<and> 0 < det2 A"

text \<open>\<open>lam\<close> is an eigenvalue of \<open>A\<close>: a root of the characteristic polynomial.\<close>

definition is_eigenvalue :: "mat2 \<Rightarrow> real \<Rightarrow> bool" where
  "is_eigenvalue A lam \<longleftrightarrow>
     det2 ((fst (fst A) - lam, snd (fst A)), (fst (snd A), snd (snd A) - lam)) = 0"

subsection \<open>Float operations that may leave the finite reals\<close>

definition np_divide :: "real \<Rightarrow> real \<Rightarrow> real option" where
  "np_divide x y = (if y = 0 then None else Some (x / y))"

definition np_sqrt :: "real \<Rightarrow> real option" where
  "np_sqrt x = (if x < 0 then None else Some (sqrt x))"

definition np_multiply :: "real option \<Rightarrow> real option \<Rightarrow> real option" where
  "np_multiply x y =
     (case x of None \<Rightarrow> None
      | Some u \<Rightarrow> (case y of None \<Rightarrow> None | Some v \<Rightarrow> Some (u * v)))"

datatype exn = LinAlgError

text \<open>
  \<^verbatim>\<open>np.linalg.inv\<close>: raises \<^verbatim>\<open>LinAlgError\<close> on a singular matrix, otherwise the inverse.
\<close>

definition linalg_inv :: "mat2 \<Rightarrow> exn + mat2" where
  "linalg_inv A =
     (if det2 A = 0 then Inl LinAlgError
      else case A of ((a00, a01), (a10, a11)) \<Rightarrow>
        Inr ((a11 / det2 A, - a01 / det2 A), (- a10 / det2 A, a00 / det2 A)))"

text \<open>
  \<^verbatim>\<open>scipy.stats.chi2\<close> at two degrees of freedom, the only value of \<^verbatim>\<open>df\<close> the program
  uses: the distribution function is \<open>1 - exp (- x / 2)\<close> on the non-negative reals, and
  the quantile function is its inverse on \<open>[0, 1)\<close> (\<^verbatim>\<open>inf\<close> at 1, \<^verbatim>\<open>nan\<close> outside).
\<close>

definition chi2_cdf :: "real \<Rightarrow> real" where
  "chi2_cdf x = (if x \<le> 0 then 0 else 1 - exp (- x / 2))"

definition chi2_ppf :: "real \<Rightarrow> real option" where
  "chi2_ppf q = (if 0 \<le> q \<and> q < 1 then Some (- 2 * ln (1 - q)) else None)"

subsection \<open>The statistical core\<close>

definition cov_matrix :: "real \<Rightarrow> real \<Rightarrow> real \<Rightarrow> mat2" where
  "cov_matrix a b theta =
     (let theta_rad = radians (theta + 90);
          R = ((cos theta_rad, - sin theta_rad), (sin theta_rad, cos theta_rad));
          D = np_diag (a\<^sup>2, b\<^sup>2);
          covariance_matrix = matmul (matmul R D) (transpose2 R)
      in covariance_matrix)"

text \<open>
  \<^verbatim>\<open>mahalanobis_distance\<close>, in the order of the source: the difference, the spherical
  correction (a division that yields a non-finite float when the cosine is zero), the
  inversion (which may raise), the square root of the quadratic form (\<^verbatim>\<open>nan\<close> when the
  form is negative). The zero cosine belongs to real arithmetic: \<open>cos (pi / 2) = 0\<close>, while
  in double precision \<^verbatim>\<open>np.cos(np.radians(90.0))\<close> is about \<^verbatim>\<open>6.1e-17\<close>. Nothing below is
  stated about declinations of exactly 90 degrees.
\<close>

definition mahalanobis_distance :: "vec2 \<Rightarrow> vec2 \<Rightarrow> mat2 \<Rightarrow> exn + real option" where
  "mahalanobis_distance point frbcenter cov =
     (let diff = vsub point frbcenter;
          correction = np_multiply (Some (fst diff)) (np_divide 1 (cos (radians (snd point))))
      in case linalg_inv cov of
           Inl e \<Rightarrow> Inl e
         | Inr inv_cov_matrix \<Rightarrow>
             Inr (case correction of
                    None \<Rightarrow> None
                  | Some c \<Rightarrow>
                      (let diff_corrected = (c, snd diff)
                       in np_sqrt (dot (vecmat diff_corrected inv_cov_matrix) diff_corrected))))"

definition percentile :: "real \<Rightarrow> real" where
  "percentile md = chi2_cdf (md\<^sup>2)"

subsection \<open>Contour geometry\<close>

text \<open>
  \<^verbatim>\<open>np.linalg.eigh\<close> is a LAPACK routine outside the repository. The model takes it as
  a parameter \<open>eigh\<close>; \<open>eigh_contract\<close> is what numpy documents of its result on a
  symmetric matrix: eigenvalues in ascending order, and as columns of the second
  component orthonormal eigenvectors, the \<open>i\<close>-th column for the \<open>i\<close>-th eigenvalue.
\<close>

type_synonym eigh_fun = "mat2 \<Rightarrow> vec2 \<times> mat2"

definition vindex :: "vec2 \<Rightarrow> nat \<Rightarrow> real" where
  "vindex v i = (if i = 0 then fst v else snd v)"

definition column :: "mat2 \<Rightarrow> nat \<Rightarrow> vec2" where
  "column V i = (vindex (fst V) i, vindex (snd V) i)"


text \<open>
  An instance for concrete evaluation, on diagonal matrices. When the first diagonal entry
  is the larger one, the eigenvalues in ascending order are the second and the first
  entry, with the unit vectors \<open>(0, 1)\<close> and \<open>(1, 0)\<close> as eigenvectors. Otherwise the
  diagonal is already ascending and the eigenvectors are \<open>(1, 0)\<close> and \<open>(0, 1)\<close>; this is
  the case of the identity matrix.
\<close>

definition eigh_diag :: eigh_fun where
  "eigh_diag A =
     (if snd (snd A) < fst (fst A)
      then ((snd (snd A), fst (fst A)), ((0, 1), (1, 0)))
      else ((fst (fst A), snd (snd A)), ((1, 0), (0, 1))))"

text \<open>\<^verbatim>\<open>argsort\<close> of two values (stable), and \<^verbatim>\<open>[::-1]\<close>.\<close>

definition argsort :: "vec2 \<Rightarrow> nat \<times> nat" where
  "argsort w = (if snd w < fst w then (1, 0) else (0, 1))"

definition reversed :: "'a \<times> 'a \<Rightarrow> 'a \<times> 'a" where
  "reversed p = (snd p, fst p)"

text \<open>\<^verbatim>\<open>eigvals[order]\<close> and \<^verbatim>\<open>eigvecs[:, order]\<close>.\<close>

definition take_entries :: "vec2 \<Rightarrow> nat \<times> nat \<Rightarrow> vec2" where
  "take_entries v order = (vindex v (fst order), vindex v (snd order))"

definition take_columns :: "mat2 \<Rightarrow> nat \<times> nat \<Rightarrow> mat2" where
  "take_columns V order = (take_entries (fst V) order, take_entries (snd V) order)"

text \<open>\<^verbatim>\<open>np.arctan2(y, x)\<close>: the angle of the point \<open>(x, y)\<close>, in \<open>(-pi, pi]\<close>.\<close>

definition arctan2 :: "real \<Rightarrow> real \<Rightarrow> real" where
  "arctan2 y x =
     (if 0 < x then arctan (y / x)
      else if x < 0 then (if 0 \<le> y then arctan (y / x) + pi else arctan (y / x) - pi)
      else if 0 < y then pi / 2
      else if y < 0 then - (pi / 2)
      else 0)"

text \<open>
  A \<^verbatim>\<open>matplotlib.patches.Ellipse\<close>: centre, full width and height (possibly not finite),
  and the anticlockwise rotation in degrees. The colour, the label and the line width
  are left out.
\<close>

record ellipse =
  xy :: vec2
  width :: "real option"
  height :: "real option"
  angle :: real


text \<open>
  What \<^verbatim>\<open>gauss_contour\<close> draws: the marker of the FRB centre, one ellipse per level and,
  when a transient position is given, its marker with the annotated value
  \<^verbatim>\<open>(1 - pt) * 100\<close>. The value is \<open>None\<close> when the distance is not finite.
\<close>

record figure =
  center_marker :: vec2
  patches :: "ellipse list"
  transient_marker :: "(vec2 \<times> real option) option"

definition default_levels :: "real list" where
  "default_levels = [68 / 100, 95 / 100, 99 / 100]"

text \<open>
  \<^verbatim>\<open>gauss_contour\<close> returns nothing; its effect is the file it saves, so the model
  returns the file name with the figure, or the exception that \<^verbatim>\<open>mahalanobis_distance\<close>
  raises before anything is saved. \<^verbatim>\<open>semi_major\<close> is not used by the source.
\<close>

definition gauss_contour ::
  "eigh_fun \<Rightarrow> vec2 \<Rightarrow> mat2 \<Rightarrow> real \<Rightarrow> string \<Rightarrow> vec2 option \<Rightarrow> real list
     \<Rightarrow> exn + string \<times> figure" where
  "gauss_contour eigh frbcenter cov semi_major transient_name transient_position levels =
     (case eigh cov of (eigvals0, eigvecs0) \<Rightarrow>
     (let order = reversed (argsort eigvals0);
          eigvals = take_entries eigvals0 order;
          eigvecs = take_columns eigvecs0 order;
          width0 = np_multiply (Some 2) (np_sqrt (fst eigvals));
          height0 = np_multiply (Some 2) (np_sqrt (snd eigvals));
          theta = degrees (arctan2 (snd (column eigvecs 0)) (fst (column eigvecs 0)));
          ellipses = map (\<lambda>level.
                       let chi_square_val = chi2_ppf level
                       in \<lparr> xy = frbcenter,
                            width = np_multiply width0 (Option.bind chi_square_val np_sqrt),
                            height = np_multiply height0 (Option.bind chi_square_val np_sqrt),
                            angle = theta \<rparr>) levels
      in case transient_position of
           None \<Rightarrow>
             Inr (transient_name @ ''_gaussian_map.png'',
                  \<lparr> center_marker = frbcenter, patches = ellipses, transient_marker = None \<rparr>)
         | Some pos \<Rightarrow>
             (case mahalanobis_distance pos frbcenter cov of
                Inl e \<Rightarrow> Inl e
              | Inr md \<Rightarrow>
                  (let pt = map_option percentile md
                   in Inr (transient_name @ ''_gaussian_map.png'',
                           \<lparr> center_marker = frbcenter, patches = ellipses,
                             transient_marker =
                               Some (pos, map_option (\<lambda>p. (1 - p) * 100) pt) \<rparr>)))))"

subsection \<open>The catalogue\<close>

text \<open>
  A row of the table that \<^verbatim>\<open>ascii.read\<close> returns, with the columns the program reads.
\<close>

record catalog_row =
  col_name :: string
  col_ra_frb :: real
  col_dec_frb :: real
  col_theta :: real
  col_a_err :: real
  col_b_err :: real
  col_include :: string

text \<open>\<^verbatim>\<open>f[mask]\<close>: the rows of a table at which a boolean mask is true.\<close>

definition mask_select :: "'a list \<Rightarrow> bool list \<Rightarrow> 'a list" where
  "mask_select rows keep = map fst (filter snd (zip rows keep))"

definition read_final_catalog ::
  "catalog_row list
     \<Rightarrow> string list \<times> real list \<times> real list \<times> real list \<times> real list \<times> real list" where
  "read_final_catalog f =
     (let filtered_f = mask_select f (map (\<lambda>row. col_include row = ''yes'') f);
          name = map col_name filtered_f;
          ra = map col_ra_frb filtered_f;
          dec = map col_dec_frb filtered_f;
          theta = map col_theta filtered_f;
          b = map col_b_err filtered_f;
          a = map col_a_err filtered_f
      in (name, ra, dec, theta, a, b))"

subsection \<open>The orchestrator\<close>

text \<open>
  An entry of \<^verbatim>\<open>trans_metadata\<close> with the keys the plotting loops read. The dictionary
  is the list of its items in insertion order. It is the result of the queries to the
  Transient Name Server, which are outside the model, and so a parameter of \<open>main\<close>.
  A \<^verbatim>\<open>SkyCoord\<close> is the pair of its \<^verbatim>\<open>ra.deg\<close> and \<^verbatim>\<open>dec.deg\<close>.
\<close>

record meta =
  frbname :: string
  objname :: string
  radeg :: real
  decdeg :: real

type_synonym saved = "string \<times> figure"

text \<open>
  The plotting loops thread the list of files saved so far. An exception ends the run:
  the result is the list at that moment with the exception.
\<close>

definition single_plots ::
  "eigh_fun \<Rightarrow> (int \<times> meta) list \<Rightarrow> real \<Rightarrow> real \<Rightarrow> real \<Rightarrow> real \<Rightarrow> real
     \<Rightarrow> saved list \<times> exn option" where
  "single_plots eigh trans_metadata ra dec theta a b =
     (case trans_metadata of
        [] \<Rightarrow> ([], None)
      | (obj_id, data) # rest \<Rightarrow>
          (let cov = cov_matrix a b theta;
               transient_pos = (radeg data, decdeg data);
               frbcenter = (ra, dec)
           in case gauss_contour eigh frbcenter cov a (objname data) (Some transient_pos)
                     default_levels of
                Inl e \<Rightarrow> ([], Some e)
              | Inr s \<Rightarrow> ([s], None)))"

text \<open>The inner loop of batch mode, over the items of \<^verbatim>\<open>trans_metadata\<close>, for one FRB.\<close>

fun frb_plots ::
  "eigh_fun \<Rightarrow> string \<times> real \<times> real \<times> real \<times> real \<times> real \<Rightarrow> (int \<times> meta) list
     \<Rightarrow> saved list \<Rightarrow> saved list \<times> exn option" where
  "frb_plots eigh frb [] files = (files, None)"
| "frb_plots eigh frb ((obj_id, data) # rest) files =
     (case frb of (n, r, d, t, a, b) \<Rightarrow>
        if frbname data = n then
          (let cov = cov_matrix a b t;
               transient_pos = (radeg data, decdeg data);
               frbcenter = (r, d)
           in case gauss_contour eigh frbcenter cov a (objname data) (Some transient_pos)
                     default_levels of
                Inl e \<Rightarrow> (files, Some e)
              | Inr s \<Rightarrow>
                  frb_plots eigh frb rest
                    (files @ [s, (n @ ''_gaussian_map.png'', snd s)]))
        else frb_plots eigh frb rest files)"

text \<open>The outer loop of batch mode, over the zipped columns of the catalogue.\<close>

fun batch_plots ::
  "eigh_fun \<Rightarrow> (string \<times> real \<times> real \<times> real \<times> real \<times> real) list \<Rightarrow> (int \<times> meta) list
     \<Rightarrow> saved list \<Rightarrow> saved list \<times> exn option" where
  "batch_plots eigh [] trans_metadata files = (files, None)"
| "batch_plots eigh (frb # frbs) trans_metadata files =
     (case frb_plots eigh frb trans_metadata files of
        (files', Some e) \<Rightarrow> (files', Some e)
      | (files', None) \<Rightarrow> batch_plots eigh frbs trans_metadata files')"

text \<open>
  The plotting part of \<^verbatim>\<open>main\<close>. In batch mode the arguments \<^verbatim>\<open>ra\<close>, \<^verbatim>\<open>dec\<close>, \<^verbatim>\<open>theta\<close>,
  \<^verbatim>\<open>a\<close>, \<^verbatim>\<open>b\<close> are rebound to the columns of the catalogue before they are read.
\<close>

definition main ::
  "eigh_fun \<Rightarrow> (int \<times> meta) list \<Rightarrow> catalog_row list \<Rightarrow> real \<Rightarrow> real \<Rightarrow> real \<Rightarrow> real \<Rightarrow> real
     \<Rightarrow> bool \<Rightarrow> saved list \<times> exn option" where
  "main eigh trans_metadata f ra dec theta a b single_obj =
     (if single_obj then single_plots eigh trans_metadata ra dec theta a b
      else case read_final_catalog f of (name, ra', dec', theta', a', b') \<Rightarrow>
        batch_plots eigh (zip name (zip ra' (zip dec' (zip theta' (zip a' b')))))
          trans_metadata [])"

subsection \<open>The command line\<close>

record args =
  arg_single :: bool
  arg_filename :: "string option"
  arg_name :: "string option"
  arg_ra :: "real option"
  arg_dec :: "real option"
  arg_theta :: "real option"
  arg_a :: "real option"
  arg_b :: "real option"
  arg_radius :: real

text \<open>The keyword arguments of a call of \<^verbatim>\<open>main\<close>.\<close>

record main_call =
  call_filename :: "string option"
  call_name :: "string option"
  call_ra :: "real option"
  call_dec :: "real option"
  call_theta :: "real option"
  call_a :: "real option"
  call_b :: "real option"
  call_radius :: real
  call_single_obj :: bool

datatype outcome =
    Raised string
  | Exited string nat
  | Called main_call

text \<open>
  \<^verbatim>\<open>check_tns_api_keywords\<close>: the message of the exception for the first key that the
  environment lacks.
\<close>

fun missing_key :: "string set \<Rightarrow> string list \<Rightarrow> string option" where
  "missing_key env [] = None"
| "missing_key env (key # keys) =
     (if key \<notin> env then Some (''Add '' @ key @ '' to your environmental variables.'')
      else missing_key env keys)"

definition check_tns_api_keywords :: "string set \<Rightarrow> string option" where
  "check_tns_api_keywords env = missing_key env [''TNS_BOT_ID'', ''TNS_BOT_NAME'', ''TNS_API_KEY'']"

text \<open>
  The script body: \<open>Exited msg status\<close> is the printed line with the exit status,
  \<open>Called c\<close> is the call of \<^verbatim>\<open>main\<close> that starts the computation.
\<close>

definition script :: "string set \<Rightarrow> args \<Rightarrow> outcome" where
  "script env args =
     (case check_tns_api_keywords env of
        Some msg \<Rightarrow> Raised msg
      | None \<Rightarrow>
          if arg_single args then
            (if arg_ra args = None \<or> arg_dec args = None \<or> arg_theta args = None
                \<or> arg_a args = None \<or> arg_b args = None
             then Exited ''Error: Missing parameters for single object query.'' 1
             else Called \<lparr> call_filename = None, call_name = arg_name args,
                          call_ra = arg_ra args, call_dec = arg_dec args,
                          call_theta = arg_theta args, call_a = arg_a args,
                          call_b = arg_b args, call_radius = arg_radius args,
                          call_single_obj = True \<rparr>)
          else Called \<lparr> call_filename = arg_filename args, call_name = None,
                        call_ra = None, call_dec = None, call_theta = None,
                        call_a = None, call_b = None, call_radius = arg_radius args,
                        call_single_obj = False \<rparr>)"

section \<open>Properties\<close>

subsection \<open>Matrix algebra\<close>

lemma rot_diag_rot:
  "matmul (matmul ((c, - s), (s, c)) (np_diag (x, y))) (transpose2 ((c, - s), (s, c))) =
     ((c * c * x + s * s * y, c * s * x - c * s * y),
      (c * s * x - c * s * y, s * s * x + c * c * y))"
  by (simp add: matmul_def transpose2_def np_diag_def algebra_simps)

lemma cov_matrix_entries:
  "cov_matrix a b theta =
     (let c = cos (radians (theta + 90)); s = sin (radians (theta + 90))
      in ((c * c * a\<^sup>2 + s * s * b\<^sup>2, c * s * a\<^sup>2 - c * s * b\<^sup>2),
          (c * s * a\<^sup>2 - c * s * b\<^sup>2, s * s * a\<^sup>2 + c * c * b\<^sup>2)))"
  unfolding cov_matrix_def Let_def by (rule rot_diag_rot)

lemma unit_circle_det:
  fixes c s x y :: real
  assumes "c * c + s * s = 1"
  shows "(c * c * x + s * s * y) * (s * s * x + c * c * y)
           - (c * s * x - c * s * y) * (c * s * x - c * s * y) = x * y"
proof -
  have "(c * c * x + s * s * y) * (s * s * x + c * c * y)
           - (c * s * x - c * s * y) * (c * s * x - c * s * y)
        = x * y * ((c * c + s * s) * (c * c + s * s))"
    by (simp add: algebra_simps)
  then show ?thesis using assms by simp
qed

lemma cos_sin_unit: "cos (t::real) * cos t + sin t * sin t = 1"
  using sin_cos_squared_add2 [of t] by (simp add: power2_eq_square)

lemma det2_cov_matrix: "det2 (cov_matrix a b theta) = a\<^sup>2 * b\<^sup>2"
  unfolding cov_matrix_entries Let_def det2_def
  using unit_circle_det [OF cos_sin_unit] by simp

lemma radians_less: "radians x < radians y \<longleftrightarrow> x < y"
  by (simp add: radians_def)

lemma cos_radians_pos:
  assumes "- 90 < d" "d < 90"
  shows "0 < cos (radians d)"
proof -
  have "radians (- 90) < radians d" using assms(1) by (simp only: radians_less)
  then have "- (pi / 2) < radians d" by (simp add: radians_def)
  moreover have "radians d < radians 90" using assms(2) by (simp only: radians_less)
  then have "radians d < pi / 2" by (simp add: radians_def)
  ultimately show ?thesis by (rule cos_gt_zero_pi)
qed

subsection \<open>The covariance matrix\<close>

lemma quad_rot:
  fixes c s x y p q :: real
  shows "p * ((c * c * x + s * s * y) * p + (c * s * x - c * s * y) * q)
       + q * ((c * s * x - c * s * y) * p + (s * s * x + c * c * y) * q)
       = x * (c * p + s * q)\<^sup>2 + y * (c * q - s * p)\<^sup>2"
  by (simp add: power2_eq_square algebra_simps)

lemma charpoly_rot:
  fixes c s x y l :: real
  assumes "c * c + s * s = 1"
  shows "(c * c * x + s * s * y - l) * (s * s * x + c * c * y - l)
           - (c * s * x - c * s * y) * (c * s * x - c * s * y) = (l - x) * (l - y)"
proof -
  have "(c * c * x + s * s * y - l) * (s * s * x + c * c * y - l)
           - (c * s * x - c * s * y) * (c * s * x - c * s * y)
        = x * y * ((c * c + s * s) * (c * c + s * s)) - l * (x + y) * (c * c + s * s) + l * l"
    by (simp add: algebra_simps)
  also have "\<dots> = (l - x) * (l - y)" using assms by (simp add: algebra_simps)
  finally show ?thesis .
qed

text \<open>
  C2. For every \<open>a \<ge> b \<ge> 0\<close> and every real \<open>theta\<close>, the matrix that
  \<^verbatim>\<open>cov_matrix(a, b, theta)\<close> returns is symmetric and positive semi-definite, and its
  eigenvalues are exactly \<open>a\<^sup>2\<close> and \<open>b\<^sup>2\<close>.
\<close>

theorem cov_matrix_spd_eigen:
  assumes "0 \<le> b" "b \<le> a"
  shows "symmetric2 (cov_matrix a b theta)
     \<and> (\<forall>v. 0 \<le> dot v (matvec (cov_matrix a b theta) v))
     \<and> (\<forall>lam. is_eigenvalue (cov_matrix a b theta) lam \<longleftrightarrow> lam = a\<^sup>2 \<or> lam = b\<^sup>2)"
proof -
  define c where "c = cos (radians (theta + 90))"
  define s where "s = sin (radians (theta + 90))"
  have cs: "c * c + s * s = 1" unfolding c_def s_def by (rule cos_sin_unit)
  have ent: "cov_matrix a b theta =
      ((c * c * a\<^sup>2 + s * s * b\<^sup>2, c * s * a\<^sup>2 - c * s * b\<^sup>2),
       (c * s * a\<^sup>2 - c * s * b\<^sup>2, s * s * a\<^sup>2 + c * c * b\<^sup>2))"
    unfolding c_def s_def by (simp add: cov_matrix_entries Let_def)
  have sym: "symmetric2 (cov_matrix a b theta)" by (simp add: ent symmetric2_def)
  have psd: "0 \<le> dot v (matvec (cov_matrix a b theta) v)" for v
  proof -
    have "dot v (matvec (cov_matrix a b theta) v)
            = a\<^sup>2 * (c * fst v + s * snd v)\<^sup>2 + b\<^sup>2 * (c * snd v - s * fst v)\<^sup>2"
      unfolding ent dot_def matvec_def fst_conv snd_conv by (rule quad_rot)
    then show ?thesis by simp
  qed
  have eig: "is_eigenvalue (cov_matrix a b theta) lam \<longleftrightarrow> lam = a\<^sup>2 \<or> lam = b\<^sup>2" for lam
  proof -
    have "det2 ((fst (fst (cov_matrix a b theta)) - lam, snd (fst (cov_matrix a b theta))),
                (fst (snd (cov_matrix a b theta)), snd (snd (cov_matrix a b theta)) - lam))
          = (lam - a\<^sup>2) * (lam - b\<^sup>2)"
      unfolding ent det2_def fst_conv snd_conv prod.case by (rule charpoly_rot [OF cs])
    then show ?thesis by (simp add: is_eigenvalue_def)
  qed
  from sym psd eig show ?thesis by blast
qed

theorem cov_matrix_spd_eigen_witness:
  "(0::real) \<le> 1 \<and> (1::real) \<le> 2
     \<and> symmetric2 (cov_matrix 2 1 30)
     \<and> (\<forall>v. 0 \<le> dot v (matvec (cov_matrix 2 1 30) v))
     \<and> (\<forall>lam. is_eigenvalue (cov_matrix 2 1 30) lam \<longleftrightarrow> lam = 2\<^sup>2 \<or> lam = 1\<^sup>2)"
  using cov_matrix_spd_eigen [of 1 2 30] by simp

subsection \<open>The confidence scorer\<close>

text \<open>
  C5. \<^verbatim>\<open>percentile\<close> is monotonically non-decreasing in the Mahalanobis distance: for
  non-negative distances \<open>d1 \<le> d2\<close>, at two degrees of freedom,
  \<open>percentile d1 \<le> percentile d2\<close>.
\<close>

theorem percentile_mono:
  "0 \<le> d1 \<Longrightarrow> d1 \<le> d2 \<Longrightarrow> percentile d1 \<le> percentile d2"
proof -
  assume h: "0 \<le> d1" "d1 \<le> d2"
  then have sq: "d1\<^sup>2 \<le> d2\<^sup>2" by (simp add: power_mono)
  show ?thesis
  proof (cases "d2\<^sup>2 \<le> 0")
    case True
    with sq have "d1\<^sup>2 \<le> 0" by linarith
    with True show ?thesis by (simp add: percentile_def chi2_cdf_def)
  next
    case False
    then have pos2: "0 < d2\<^sup>2" by simp
    show ?thesis
    proof (cases "d1\<^sup>2 \<le> 0")
      case True
      have "exp (- d2\<^sup>2 / 2) \<le> 1" using pos2 by simp
      with True False show ?thesis by (simp add: percentile_def chi2_cdf_def)
    next
      case F1: False
      have "exp (- d2\<^sup>2 / 2) \<le> exp (- d1\<^sup>2 / 2)" using sq by simp
      with F1 False show ?thesis by (simp add: percentile_def chi2_cdf_def)
    qed
  qed
qed

theorem percentile_mono_witness:
  "(0::real) \<le> 1 \<and> (1::real) \<le> 2 \<and> percentile 1 \<le> percentile 2"
  using percentile_mono [of 1 2] by simp

subsection \<open>The distance estimator\<close>

text \<open>
  C6. For every non-singular covariance matrix and every centre whose declination is
  strictly between -90 and +90 degrees, the Mahalanobis distance of the centre from
  itself is 0, and the confidence at distance 0 is 0.
\<close>

theorem mahalanobis_center_zero:
  assumes "det2 cov \<noteq> 0" "- 90 < snd center" "snd center < 90"
  shows "mahalanobis_distance center center cov = Inr (Some 0) \<and> percentile 0 = 0"
proof -
  have c: "cos (radians (snd center)) \<noteq> 0" using cos_radians_pos [OF assms(2,3)] by simp
  obtain a00 a01 a10 a11 where cv: "cov = ((a00, a01), (a10, a11))" by (metis prod.collapse)
  have "mahalanobis_distance center center cov = Inr (Some 0)"
    using assms(1) c
    by (simp add: mahalanobis_distance_def linalg_inv_def vsub_def np_multiply_def np_divide_def
        np_sqrt_def dot_def vecmat_def cv Let_def)
  moreover have "percentile 0 = 0" by (simp add: percentile_def chi2_cdf_def)
  ultimately show ?thesis by simp
qed

text \<open>The scenario of the specification: a = 0.01, b = 0.005, theta = 30.\<close>

theorem mahalanobis_center_zero_witness:
  "det2 (cov_matrix (1 / 100) (5 / 1000) 30) \<noteq> 0 \<and> - 90 < snd (150 :: real, 20 :: real)
     \<and> snd (150 :: real, 20 :: real) < 90
     \<and> mahalanobis_distance (150, 20) (150, 20) (cov_matrix (1 / 100) (5 / 1000) 30)
         = Inr (Some 0)
     \<and> percentile 0 = 0"
  using mahalanobis_center_zero [of "cov_matrix (1 / 100) (5 / 1000) 30" "(150, 20)"]
  by (simp add: det2_cov_matrix)

lemma inv_quadratic_form:
  assumes "det2 ((a00, a01), (a10, a11)) \<noteq> 0"
  shows "linalg_inv ((a00, a01), (a10, a11)) = Inr icov \<Longrightarrow>
         dot (vecmat (x, y) icov) (x, y)
           = (a11 * x\<^sup>2 - (a01 + a10) * x * y + a00 * y\<^sup>2) / det2 ((a00, a01), (a10, a11))"
  using assms
  by (auto simp add: linalg_inv_def dot_def vecmat_def power2_eq_square field_simps)

lemma pd_form_nonneg:
  fixes a00 a01 a11 x y :: real
  assumes "0 < a00" "0 < a00 * a11 - a01 * a01"
  shows "0 \<le> a11 * x\<^sup>2 - (a01 + a01) * x * y + a00 * y\<^sup>2"
proof -
  have "a00 * (a11 * x\<^sup>2 - (a01 + a01) * x * y + a00 * y\<^sup>2)
          = (a00 * y - a01 * x)\<^sup>2 + (a00 * a11 - a01 * a01) * x\<^sup>2"
    by (simp add: power2_eq_square algebra_simps)
  moreover have "0 \<le> (a00 * y - a01 * x)\<^sup>2 + (a00 * a11 - a01 * a01) * x\<^sup>2"
    using assms(2) by (simp add: less_imp_le)
  ultimately have "0 \<le> a00 * (a11 * x\<^sup>2 - (a01 + a01) * x * y + a00 * y\<^sup>2)" by simp
  then show ?thesis using assms(1) by (simp add: zero_le_mult_iff)
qed

lemma mahalanobis_value:
  assumes pd: "positive_definite cov" and c: "cos (radians (snd p)) \<noteq> 0"
  shows "\<exists>icov. linalg_inv cov = Inr icov \<and>
           0 \<le> dot (vecmat ((fst p - fst q) * (1 / cos (radians (snd p))), snd p - snd q) icov)
                    ((fst p - fst q) * (1 / cos (radians (snd p))), snd p - snd q) \<and>
           mahalanobis_distance p q cov =
             Inr (Some (sqrt (dot
                (vecmat ((fst p - fst q) * (1 / cos (radians (snd p))), snd p - snd q) icov)
                ((fst p - fst q) * (1 / cos (radians (snd p))), snd p - snd q))))"
proof -
  obtain a00 a01 a10 a11 where cv: "cov = ((a00, a01), (a10, a11))" by (metis prod.collapse)
  from pd have sym: "a10 = a01" and pos: "0 < a00" and det: "0 < det2 cov"
    by (auto simp add: positive_definite_def symmetric2_def cv)
  from det have dne: "det2 cov \<noteq> 0" by simp
  then obtain icov where icov: "linalg_inv cov = Inr icov" by (simp add: linalg_inv_def cv)
  define x where "x = (fst p - fst q) * (1 / cos (radians (snd p)))"
  define y where "y = snd p - snd q"
  have qf: "dot (vecmat (x, y) icov) (x, y)
           = (a11 * x\<^sup>2 - (a01 + a10) * x * y + a00 * y\<^sup>2) / det2 cov"
    using inv_quadratic_form [of a00 a01 a10 a11 icov x y] dne icov by (simp add: cv)
  have "0 < a00 * a11 - a01 * a01" using det by (simp add: det2_def cv sym)
  from pd_form_nonneg [OF pos this, of x y]
  have nn: "0 \<le> dot (vecmat (x, y) icov) (x, y)" using det by (simp add: qf sym)
  have "mahalanobis_distance p q cov = Inr (Some (sqrt (dot (vecmat (x, y) icov) (x, y))))"
    using icov c nn
    by (simp add: mahalanobis_distance_def vsub_def np_multiply_def np_divide_def np_sqrt_def
        Let_def x_def y_def)
  with icov nn show ?thesis unfolding x_def y_def by blast
qed

lemma cos_radians_0_60: "cos (radians 0) = 1" "cos (radians 60) = 1 / 2"
  by (simp_all add: radians_def cos_60)

text \<open>
  C3, amended. \<^verbatim>\<open>mahalanobis_distance\<close> multiplies the right-ascension component of
  \<open>point - center\<close> by 1 / cos of the point's declination in radians before it applies
  the inverse covariance. Consequently, with the same positive definite covariance and
  the same offset, non-zero in right ascension and zero in declination, the distance
  evaluated at declination 60 degrees is larger than the one at declination 0: it is
  twice as large.
\<close>

theorem spherical_correction:
  assumes pd: "positive_definite cov" and dx: "dx \<noteq> 0"
    and lo: "- 90 < snd p" and hi: "snd p < 90"
  shows "(\<exists>icov. linalg_inv cov = Inr icov \<and>
            mahalanobis_distance p q cov =
              Inr (Some (sqrt (dot
                (vecmat ((fst p - fst q) * (1 / cos (radians (snd p))), snd p - snd q) icov)
                ((fst p - fst q) * (1 / cos (radians (snd p))), snd p - snd q)))))
       \<and> (\<exists>d0 d60.
            mahalanobis_distance (ra0 + dx, 0) (ra0, 0) cov = Inr (Some d0) \<and>
            mahalanobis_distance (ra1 + dx, 60) (ra1, 60) cov = Inr (Some d60) \<and>
            d0 < d60 \<and> d60 = 2 * d0)"
proof
  have "cos (radians (snd p)) \<noteq> 0" using cos_radians_pos [OF lo hi] by simp
  from mahalanobis_value [OF pd this, of q]
  show "\<exists>icov. linalg_inv cov = Inr icov \<and>
            mahalanobis_distance p q cov =
              Inr (Some (sqrt (dot
                (vecmat ((fst p - fst q) * (1 / cos (radians (snd p))), snd p - snd q) icov)
                ((fst p - fst q) * (1 / cos (radians (snd p))), snd p - snd q))))"
    by blast
next
  obtain a00 a01 a10 a11 where cv: "cov = ((a00, a01), (a10, a11))" by (metis prod.collapse)
  from pd have sym: "a10 = a01" and pos: "0 < a00" and det: "0 < det2 cov"
    by (auto simp add: positive_definite_def symmetric2_def cv)
  have "a01 * a01 < a00 * a11" using det by (simp add: det2_def cv sym)
  moreover have "0 \<le> a01 * a01" by simp
  ultimately have "0 < a00 * a11" by linarith
  then have a11: "0 < a11" using pos by (simp add: zero_less_mult_iff)
  from det have dne: "det2 ((a00, a01), (a10, a11)) \<noteq> 0" by (simp add: cv)
  obtain icov where icov: "linalg_inv cov = Inr icov"
    using det by (simp add: linalg_inv_def cv)
  have q0: "dot (vecmat (dx, 0) icov) (dx, 0) = a11 * dx\<^sup>2 / det2 cov"
    using inv_quadratic_form [OF dne, of icov dx 0] icov by (simp add: cv)
  have q60: "dot (vecmat (dx * 2, 0) icov) (dx * 2, 0) = 4 * (a11 * dx\<^sup>2 / det2 cov)"
    using inv_quadratic_form [OF dne, of icov "dx * 2" 0] icov
    by (simp add: cv power2_eq_square)
  have qpos: "0 < a11 * dx\<^sup>2 / det2 cov" using a11 dx det by simp
  have m0: "mahalanobis_distance (ra0 + dx, 0) (ra0, 0) cov
              = Inr (Some (sqrt (a11 * dx\<^sup>2 / det2 cov)))"
    using icov qpos
    by (simp add: mahalanobis_distance_def vsub_def np_multiply_def np_divide_def np_sqrt_def
        Let_def cos_radians_0_60 q0 del: divide_eq_0_iff)
  have m60: "mahalanobis_distance (ra1 + dx, 60) (ra1, 60) cov
              = Inr (Some (sqrt (4 * (a11 * dx\<^sup>2 / det2 cov))))"
    using icov qpos
    by (simp add: mahalanobis_distance_def vsub_def np_multiply_def np_divide_def np_sqrt_def
        Let_def cos_radians_0_60 q60)
  have s4: "sqrt (4 * (a11 * dx\<^sup>2 / det2 cov)) = 2 * sqrt (a11 * dx\<^sup>2 / det2 cov)"
  proof -
    have "sqrt (4 * (a11 * dx\<^sup>2 / det2 cov)) = sqrt 4 * sqrt (a11 * dx\<^sup>2 / det2 cov)"
      by (rule real_sqrt_mult)
    moreover have "sqrt 4 = (2::real)"
      using real_sqrt_abs [of 2] by simp
    ultimately show ?thesis by (simp only:)
  qed
  have sp: "0 < sqrt (a11 * dx\<^sup>2 / det2 cov)" using qpos by (simp only: real_sqrt_gt_zero)
  show "\<exists>d0 d60.
            mahalanobis_distance (ra0 + dx, 0) (ra0, 0) cov = Inr (Some d0) \<and>
            mahalanobis_distance (ra1 + dx, 60) (ra1, 60) cov = Inr (Some d60) \<and>
            d0 < d60 \<and> d60 = 2 * d0"
    using m0 m60 s4 sp by simp
qed

theorem spherical_correction_witness:
  "positive_definite ((1, 0), (0, 1)) \<and> (1::real) \<noteq> 0
     \<and> - 90 < snd (11 :: real, 60 :: real) \<and> snd (11 :: real, 60 :: real) < 90
     \<and> (\<exists>icov. linalg_inv ((1, 0), (0, 1)) = Inr icov \<and>
            mahalanobis_distance (11, 60) (10, 60) ((1, 0), (0, 1)) =
              Inr (Some (sqrt (dot
                (vecmat ((fst (11 :: real, 60 :: real) - fst (10 :: real, 60 :: real))
                           * (1 / cos (radians (snd (11 :: real, 60 :: real)))),
                         snd (11 :: real, 60 :: real) - snd (10 :: real, 60 :: real)) icov)
                ((fst (11 :: real, 60 :: real) - fst (10 :: real, 60 :: real))
                   * (1 / cos (radians (snd (11 :: real, 60 :: real)))),
                 snd (11 :: real, 60 :: real) - snd (10 :: real, 60 :: real))))))
     \<and> (\<exists>d0 d60.
            mahalanobis_distance (10 + 1, 0) (10, 0) ((1, 0), (0, 1)) = Inr (Some d0) \<and>
            mahalanobis_distance (10 + 1, 60) (10, 60) ((1, 0), (0, 1)) = Inr (Some d60) \<and>
            d0 < d60 \<and> d60 = 2 * d0)"
proof -
  have pd: "positive_definite ((1, 0), (0, 1))"
    by (simp add: positive_definite_def symmetric2_def det2_def)
  have dx: "(1::real) \<noteq> 0" by simp
  have lo: "- 90 < snd (11 :: real, 60 :: real)" by simp
  have hi: "snd (11 :: real, 60 :: real) < 90" by simp
  from spherical_correction [OF pd dx lo hi, of "(10, 60)" 10 10] pd
  show ?thesis by simp
qed

text \<open>
  Without the two conditions on the offset the comparison fails. With the raw offset
  \<open>(1, 2)\<close> and a covariance that correlates the two coordinates, the distance at
  declination 60 is the smaller one; with no offset in right ascension the two distances
  are equal.
\<close>

theorem spherical_correction_counterexample:
  "positive_definite ((100 / 19, 90 / 19), (90 / 19, 100 / 19))
   \<and> mahalanobis_distance (1, 0) (0, - 2) ((100 / 19, 90 / 19), (90 / 19, 100 / 19)) = Inr (Some (sqrt (7 / 5)))
   \<and> mahalanobis_distance (1, 60) (0, 58) ((100 / 19, 90 / 19), (90 / 19, 100 / 19)) = Inr (Some (sqrt (4 / 5)))
   \<and> sqrt (4 / 5) < sqrt (7 / 5)
   \<and> mahalanobis_distance (10, 0) (10, - 1) ((1, 0), (0, 1)) = Inr (Some 1)
   \<and> mahalanobis_distance (10, 60) (10, 59) ((1, 0), (0, 1)) = Inr (Some 1)"
proof -
  have pd: "positive_definite ((100 / 19, 90 / 19), (90 / 19, 100 / 19))"
    by (simp add: positive_definite_def symmetric2_def det2_def)
  have iv: "linalg_inv ((100 / 19, 90 / 19), (90 / 19, 100 / 19)) = Inr ((1, - (9 / 10)), (- (9 / 10), 1))"
    by (simp add: linalg_inv_def det2_def)
  have f0: "dot (vecmat (1, 2) ((1, - (9 / 10)), (- (9 / 10), 1))) (1, 2) = 7 / 5"
    by (simp add: dot_def vecmat_def)
  have f60: "dot (vecmat (2, 2) ((1, - (9 / 10)), (- (9 / 10), 1))) (2, 2) = 4 / 5"
    by (simp add: dot_def vecmat_def)
  have m0: "mahalanobis_distance (1, 0) (0, - 2) ((100 / 19, 90 / 19), (90 / 19, 100 / 19)) = Inr (Some (sqrt (7 / 5)))"
    unfolding mahalanobis_distance_def Let_def iv sum.case
    by (simp add: vsub_def np_multiply_def np_divide_def np_sqrt_def cos_radians_0_60 f0
        del: real_sqrt_divide)
  have m60: "mahalanobis_distance (1, 60) (0, 58) ((100 / 19, 90 / 19), (90 / 19, 100 / 19)) = Inr (Some (sqrt (4 / 5)))"
    unfolding mahalanobis_distance_def Let_def iv sum.case
    by (simp add: vsub_def np_multiply_def np_divide_def np_sqrt_def cos_radians_0_60 f60
        del: real_sqrt_divide)
  have lt: "sqrt (4 / 5) < sqrt (7 / 5 :: real)" by simp
  have z0: "mahalanobis_distance (10, 0) (10, - 1) ((1, 0), (0, 1)) = Inr (Some 1)"
    by (simp add: mahalanobis_distance_def linalg_inv_def det2_def vsub_def np_multiply_def
        np_divide_def np_sqrt_def cos_radians_0_60 dot_def vecmat_def Let_def)
  have z60: "mahalanobis_distance (10, 60) (10, 59) ((1, 0), (0, 1)) = Inr (Some 1)"
    by (simp add: mahalanobis_distance_def linalg_inv_def det2_def vsub_def np_multiply_def
        np_divide_def np_sqrt_def cos_radians_0_60 dot_def vecmat_def Let_def)
  from pd m0 m60 lt z0 z60 show ?thesis by (intro conjI) assumption+
qed

subsection \<open>Reading the catalogue\<close>

lemma mask_select_filter: "mask_select rows (map P rows) = filter P rows"
  by (induction rows) (simp_all add: mask_select_def)

lemma zip_columns: "zip (map g xs) (map h xs) = map (\<lambda>x. (g x, h x)) xs"
  by (induction xs) simp_all

text \<open>
  C8. \<^verbatim>\<open>read_final_catalog\<close> returns exactly the rows of the catalogue whose
  \<^verbatim>\<open>include\<close> column is \<^verbatim>\<open>"yes"\<close>: the six returned columns, read side by side, are the
  (name, ra, dec, theta, a, b) tuples of those rows, in the order of the catalogue, each
  once and none left out.
\<close>

theorem read_final_catalog_rows:
  "(case read_final_catalog f of (name, ra, dec, theta, a, b) \<Rightarrow>
      zip name (zip ra (zip dec (zip theta (zip a b))))) =
   map (\<lambda>row. (col_name row, col_ra_frb row, col_dec_frb row, col_theta row,
                 col_a_err row, col_b_err row))
     (filter (\<lambda>row. col_include row = ''yes'') f)"
  by (simp add: read_final_catalog_def mask_select_filter Let_def zip_columns)

subsection \<open>The guard of single-object mode\<close>

text \<open>
  The guard of single-object mode names \<^verbatim>\<open>ra\<close>, \<^verbatim>\<open>dec\<close>, \<^verbatim>\<open>theta\<close>, \<^verbatim>\<open>a\<close> and \<^verbatim>\<open>b\<close>.
  With those five given and \<^verbatim>\<open>--name\<close> left out, \<^verbatim>\<open>main\<close> is called with the name
  \<^verbatim>\<open>None\<close>.
\<close>

theorem single_mode_name_counterexample:
  "script {''TNS_BOT_ID'', ''TNS_BOT_NAME'', ''TNS_API_KEY''}
     \<lparr> arg_single = True, arg_filename = None, arg_name = None,
       arg_ra = Some 150, arg_dec = Some 20, arg_theta = Some 30,
       arg_a = Some (1 / 100), arg_b = Some (5 / 1000), arg_radius = 3 \<rparr>
   = Called \<lparr> call_filename = None, call_name = None,
              call_ra = Some 150, call_dec = Some 20, call_theta = Some 30,
              call_a = Some (1 / 100), call_b = Some (5 / 1000), call_radius = 3,
              call_single_obj = True \<rparr>"
  by (simp add: script_def check_tns_api_keywords_def)

text \<open>
  C7, amended. In single-object mode, if any of \<^verbatim>\<open>ra\<close>, \<^verbatim>\<open>dec\<close>, \<^verbatim>\<open>theta\<close>, \<^verbatim>\<open>a\<close>, \<^verbatim>\<open>b\<close>
  is missing, \<^verbatim>\<open>main\<close> is never called; once the check of the credentials in the
  environment has passed, the program prints the error line and exits with status 1.
\<close>

theorem single_mode_missing_parameter:
  assumes "arg_single args"
    and "arg_ra args = None \<or> arg_dec args = None \<or> arg_theta args = None
           \<or> arg_a args = None \<or> arg_b args = None"
  shows "(\<forall>c. script env args \<noteq> Called c)
     \<and> (check_tns_api_keywords env = None \<longrightarrow>
          script env args = Exited ''Error: Missing parameters for single object query.'' 1)"
  using assms by (auto simp add: script_def split: option.split)

theorem single_mode_missing_parameter_witness:
  "arg_single \<lparr> arg_single = True, arg_filename = None, arg_name = Some ''FRB20240101A'',
       arg_ra = Some 150, arg_dec = None, arg_theta = Some 30,
       arg_a = Some (1 / 100), arg_b = Some (5 / 1000), arg_radius = 3 \<rparr>
   \<and> arg_dec \<lparr> arg_single = True, arg_filename = None, arg_name = Some ''FRB20240101A'',
       arg_ra = Some 150, arg_dec = None, arg_theta = Some 30,
       arg_a = Some (1 / 100), arg_b = Some (5 / 1000), arg_radius = 3 \<rparr> = None
   \<and> check_tns_api_keywords {''TNS_BOT_ID'', ''TNS_BOT_NAME'', ''TNS_API_KEY''} = None
   \<and> script {''TNS_BOT_ID'', ''TNS_BOT_NAME'', ''TNS_API_KEY''}
       \<lparr> arg_single = True, arg_filename = None, arg_name = Some ''FRB20240101A'',
         arg_ra = Some 150, arg_dec = None, arg_theta = Some 30,
         arg_a = Some (1 / 100), arg_b = Some (5 / 1000), arg_radius = 3 \<rparr>
     = Exited ''Error: Missing parameters for single object query.'' 1"
  using single_mode_missing_parameter
    [of "\<lparr> arg_single = True, arg_filename = None, arg_name = Some ''FRB20240101A'',
         arg_ra = Some 150, arg_dec = None, arg_theta = Some 30,
         arg_a = Some (1 / 100), arg_b = Some (5 / 1000), arg_radius = 3 \<rparr>"
        "{''TNS_BOT_ID'', ''TNS_BOT_NAME'', ''TNS_API_KEY''}"]
  by (simp add: check_tns_api_keywords_def)


subsection \<open>The plotting loops\<close>

lemma gauss_contour_singular:
  "det2 cov = 0 \<Longrightarrow>
     gauss_contour eigh c cov sm nm (Some pos) lv = Inl LinAlgError"
  by (simp add: gauss_contour_def mahalanobis_distance_def linalg_inv_def Let_def
      split: prod.split)

lemma gauss_contour_saved:
  "det2 cov \<noteq> 0 \<Longrightarrow>
     \<exists>fig. gauss_contour eigh c cov sm nm (Some pos) lv = Inr (nm @ ''_gaussian_map.png'', fig)"
  by (simp add: gauss_contour_def mahalanobis_distance_def linalg_inv_def Let_def
      split: prod.split)

lemma det2_cov_matrix_zero: "det2 (cov_matrix a b t) = 0 \<longleftrightarrow> a = 0 \<or> b = 0"
  by (simp add: det2_cov_matrix)

lemma zipped_catalog:
  "(case read_final_catalog f of (name, ra, dec, theta, a, b) \<Rightarrow>
      zip name (zip ra (zip dec (zip theta (zip a b))))) =
   map (\<lambda>row. (col_name row, col_ra_frb row, col_dec_frb row, col_theta row,
                 col_a_err row, col_b_err row))
     (filter (\<lambda>row. col_include row = ''yes'') f)"
  by (simp add: read_final_catalog_def mask_select_filter Let_def zip_columns)

lemma main_batch:
  "main eigh tm f ra dec theta a b False =
     batch_plots eigh
       (map (\<lambda>row. (col_name row, col_ra_frb row, col_dec_frb row, col_theta row,
                      col_a_err row, col_b_err row))
          (filter (\<lambda>row. col_include row = ''yes'') f)) tm []"
  using zipped_catalog [of f] by (simp add: main_def split: prod.splits)

lemma batch_plots_append:
  "batch_plots eigh (xs @ ys) tm files =
     (case batch_plots eigh xs tm files of
        (files', Some e) \<Rightarrow> (files', Some e)
      | (files', None) \<Rightarrow> batch_plots eigh ys tm files')"
  by (induction xs arbitrary: files) (auto split: prod.splits option.splits)

lemma frb_plots_singular:
  assumes "a = 0 \<or> b = 0" and "\<exists>item \<in> set tm. frbname (snd item) = n"
  shows "frb_plots eigh (n, r, d, t, a, b) tm files = (files, Some LinAlgError)"
  using assms(2)
proof (induction tm)
  case Nil
  then show ?case by simp
next
  case (Cons item tm)
  obtain obj_id data where it: "item = (obj_id, data)" by (cases item)
  have sing: "det2 (cov_matrix a b t) = 0" using assms(1) by (simp add: det2_cov_matrix_zero)
  show ?case
  proof (cases "frbname data = n")
    case True
    then show ?thesis by (simp add: it gauss_contour_singular [OF sing])
  next
    case False
    with Cons.prems have "\<exists>item \<in> set tm. frbname (snd item) = n" by (simp add: it)
    with Cons.IH False show ?thesis by (simp add: it)
  qed
qed

lemma frb_plots_regular:
  assumes "a \<noteq> 0" "b \<noteq> 0"
  shows "\<exists>new. frb_plots eigh (n, r, d, t, a, b) tm files = (files @ new, None)
           \<and> map fst new = concat (map (\<lambda>item. [objname (snd item) @ ''_gaussian_map.png'', n @ ''_gaussian_map.png''])
              (filter (\<lambda>item. frbname (snd item) = n) tm))"
proof (induction tm arbitrary: files)
  case Nil
  then show ?case by simp
next
  case (Cons item tm)
  obtain obj_id data where it: "item = (obj_id, data)" by (cases item)
  have reg: "det2 (cov_matrix a b t) \<noteq> 0" using assms by (simp add: det2_cov_matrix_zero)
  show ?case
  proof (cases "frbname data = n")
    case True
    from gauss_contour_saved [OF reg] obtain fig where
      g: "gauss_contour eigh (r, d) (cov_matrix a b t) a (objname data)
            (Some (radeg data, decdeg data)) default_levels
          = Inr (objname data @ ''_gaussian_map.png'', fig)" by blast
    let ?two = "[(objname data @ ''_gaussian_map.png'', fig), (n @ ''_gaussian_map.png'', fig)]"
    from Cons.IH [of "files @ ?two"] obtain new where
      n: "frb_plots eigh (n, r, d, t, a, b) tm (files @ ?two) = ((files @ ?two) @ new, None)"
         "map fst new = concat (map (\<lambda>item. [objname (snd item) @ ''_gaussian_map.png'', n @ ''_gaussian_map.png''])
              (filter (\<lambda>item. frbname (snd item) = n) tm))" by blast
    have "frb_plots eigh (n, r, d, t, a, b) (item # tm) files = (files @ (?two @ new), None)"
      using True g n(1) by (simp add: it)
    moreover have "map fst (?two @ new) = concat (map (\<lambda>item. [objname (snd item) @ ''_gaussian_map.png'', n @ ''_gaussian_map.png''])
              (filter (\<lambda>item. frbname (snd item) = n) (item # tm)))"
      using True n(2) by (simp add: it)
    ultimately show ?thesis by blast
  next
    case False
    from Cons.IH [of files] obtain new where
      n: "frb_plots eigh (n, r, d, t, a, b) tm files = (files @ new, None)"
         "map fst new = concat (map (\<lambda>item. [objname (snd item) @ ''_gaussian_map.png'', n @ ''_gaussian_map.png''])
              (filter (\<lambda>item. frbname (snd item) = n) tm))" by blast
    have "frb_plots eigh (n, r, d, t, a, b) (item # tm) files = (files @ new, None)"
      using False n(1) by (simp add: it)
    moreover have "map fst new = concat (map (\<lambda>item. [objname (snd item) @ ''_gaussian_map.png'', n @ ''_gaussian_map.png''])
              (filter (\<lambda>item. frbname (snd item) = n) (item # tm)))"
      using False n(2) by (simp add: it)
    ultimately show ?thesis by blast
  qed
qed

lemma batch_plots_regular:
  assumes "\<forall>frb \<in> set frbs. fst (snd (snd (snd (snd frb)))) \<noteq> 0 \<and> snd (snd (snd (snd (snd frb)))) \<noteq> 0"
  shows "\<exists>new. batch_plots eigh frbs tm files = (files @ new, None)
           \<and> map fst new = concat (map (\<lambda>frb. concat (map (\<lambda>item. [objname (snd item) @ ''_gaussian_map.png'', fst frb @ ''_gaussian_map.png''])
              (filter (\<lambda>item. frbname (snd item) = fst frb) tm))) frbs)"
  using assms
proof (induction frbs arbitrary: files)
  case Nil
  then show ?case by simp
next
  case (Cons frb frbs)
  obtain n r d t a b where f: "frb = (n, r, d, t, a, b)" by (metis prod.collapse)
  from Cons.prems have ab: "a \<noteq> 0" "b \<noteq> 0" by (simp_all add: f)
  from frb_plots_regular [OF ab, of eigh n r d t tm files] obtain new1 where
    n1: "frb_plots eigh (n, r, d, t, a, b) tm files = (files @ new1, None)"
        "map fst new1 = concat (map (\<lambda>item. [objname (snd item) @ ''_gaussian_map.png'', n @ ''_gaussian_map.png''])
              (filter (\<lambda>item. frbname (snd item) = n) tm))" by blast
  from Cons.prems have "\<forall>frb \<in> set frbs. fst (snd (snd (snd (snd frb)))) \<noteq> 0 \<and> snd (snd (snd (snd (snd frb)))) \<noteq> 0"
    by simp
  from Cons.IH [OF this, of "files @ new1"] obtain new2 where
    n2: "batch_plots eigh frbs tm (files @ new1) = ((files @ new1) @ new2, None)"
        "map fst new2 = concat (map (\<lambda>frb. concat (map (\<lambda>item. [objname (snd item) @ ''_gaussian_map.png'', fst frb @ ''_gaussian_map.png''])
              (filter (\<lambda>item. frbname (snd item) = fst frb) tm))) frbs)" by blast
  have "batch_plots eigh (frb # frbs) tm files = (files @ (new1 @ new2), None)"
    using n1(1) n2(1) by (simp add: f)
  moreover have "map fst (new1 @ new2) = concat (map (\<lambda>frb. concat (map (\<lambda>item. [objname (snd item) @ ''_gaussian_map.png'', fst frb @ ''_gaussian_map.png''])
              (filter (\<lambda>item. frbname (snd item) = fst frb) tm))) (frb # frbs))"
    using n1(2) n2(2) by (simp add: f)
  ultimately show ?case by blast
qed

text \<open>
  C9, amended. In single-object mode at most one matched transient is processed; when
  \<open>a\<close> and \<open>b\<close> are not zero it is the first item of \<^verbatim>\<open>trans_metadata\<close>. In batch mode,
  provided no included catalogue entry has \<open>a = 0\<close> or \<open>b = 0\<close>, for every entry in turn
  every transient of \<^verbatim>\<open>trans_metadata\<close> whose FRB name is the entry's name is processed, in
  order and with no early exit: each saves the file named after the transient and the
  file named after the FRB.
\<close>

theorem match_processing:
  "length (fst (main eigh tm f ra dec theta a b True)) \<le> 1
   \<and> (a \<noteq> 0 \<and> b \<noteq> 0 \<longrightarrow>
        snd (main eigh tm f ra dec theta a b True) = None
        \<and> map fst (fst (main eigh tm f ra dec theta a b True))
            = map (\<lambda>item. objname (snd item) @ ''_gaussian_map.png'') (take 1 tm))
   \<and> ((\<forall>row \<in> set f. col_include row = ''yes'' \<longrightarrow> col_a_err row \<noteq> 0 \<and> col_b_err row \<noteq> 0)
      \<longrightarrow> snd (main eigh tm f ra dec theta a b False) = None
          \<and> map fst (fst (main eigh tm f ra dec theta a b False))
              = concat (map (\<lambda>row.
                  concat (map (\<lambda>item. [objname (snd item) @ ''_gaussian_map.png'',
                                          col_name row @ ''_gaussian_map.png''])
                    (filter (\<lambda>item. frbname (snd item) = col_name row) tm)))
                  (filter (\<lambda>row. col_include row = ''yes'') f)))"
proof -
  have one: "length (fst (main eigh tm f ra dec theta a b True)) \<le> 1"
    by (simp add: main_def single_plots_def Let_def split: list.split prod.split sum.split)
  have first: "snd (main eigh tm f ra dec theta a b True) = None
        \<and> map fst (fst (main eigh tm f ra dec theta a b True))
            = map (\<lambda>item. objname (snd item) @ ''_gaussian_map.png'') (take 1 tm)"
    if ab: "a \<noteq> 0 \<and> b \<noteq> 0"
  proof (cases tm)
    case Nil
    then show ?thesis by (simp add: main_def single_plots_def)
  next
    case (Cons item rest)
    obtain obj_id data where it: "item = (obj_id, data)" by (cases item)
    have reg: "det2 (cov_matrix a b theta) \<noteq> 0" using ab by (simp add: det2_cov_matrix_zero)
    from gauss_contour_saved [OF reg] obtain fig where
      "gauss_contour eigh (ra, dec) (cov_matrix a b theta) a (objname data)
            (Some (radeg data, decdeg data)) default_levels
          = Inr (objname data @ ''_gaussian_map.png'', fig)" by blast
    then show ?thesis by (simp add: main_def single_plots_def Cons it)
  qed
  have every: "snd (main eigh tm f ra dec theta a b False) = None
          \<and> map fst (fst (main eigh tm f ra dec theta a b False))
              = concat (map (\<lambda>row.
                  concat (map (\<lambda>item. [objname (snd item) @ ''_gaussian_map.png'',
                                          col_name row @ ''_gaussian_map.png''])
                    (filter (\<lambda>item. frbname (snd item) = col_name row) tm)))
                  (filter (\<lambda>row. col_include row = ''yes'') f))"
    if rows: "\<forall>row \<in> set f. col_include row = ''yes'' \<longrightarrow> col_a_err row \<noteq> 0 \<and> col_b_err row \<noteq> 0"
  proof -
  let ?frbs = "map (\<lambda>row. (col_name row, col_ra_frb row, col_dec_frb row, col_theta row,
                      col_a_err row, col_b_err row))
          (filter (\<lambda>row. col_include row = ''yes'') f)"
  have "\<forall>frb \<in> set ?frbs. fst (snd (snd (snd (snd frb)))) \<noteq> 0 \<and> snd (snd (snd (snd (snd frb)))) \<noteq> 0"
    using rows by simp
  from batch_plots_regular [OF this, of eigh tm "[]"] obtain new where
    n: "batch_plots eigh ?frbs tm [] = (new, None)"
       "map fst new = concat (map (\<lambda>frb.
            concat (map (\<lambda>item. [objname (snd item) @ ''_gaussian_map.png'', fst frb @ ''_gaussian_map.png''])
              (filter (\<lambda>item. frbname (snd item) = fst frb) tm))) ?frbs)" by auto
  have m: "main eigh tm f ra dec theta a b False = (new, None)"
    using n(1) by (simp only: main_batch)
  show ?thesis using n(2) by (simp add: m comp_def)
  qed
  from one first every show ?thesis by blast
qed

text \<open>
  Without the proviso the batch half fails: the first entry has semi-minor axis 0 at
  position angle -90, the inversion raises, and the matched transient of the second entry
  is never processed.
\<close>

theorem match_processing_counterexample:
  "map fst (fst (main eigh_diag
      [(201, \<lparr> frbname = ''FRB20230505C'', objname = ''2023aaa'', radeg = 15, decdeg = 25 \<rparr>),
       (202, \<lparr> frbname = ''FRB20230606D'', objname = ''2023bbb'', radeg = 35, decdeg = 45 \<rparr>)]
      [\<lparr> col_name = ''FRB20230505C'', col_ra_frb = 15, col_dec_frb = 25, col_theta = - 90,
         col_a_err = 3, col_b_err = 0, col_include = ''yes'' \<rparr>,
       \<lparr> col_name = ''FRB20230606D'', col_ra_frb = 35, col_dec_frb = 45, col_theta = - 90,
         col_a_err = 2, col_b_err = 1, col_include = ''yes'' \<rparr>]
      0 0 0 0 0 False)) = []
   \<and> concat (map (\<lambda>row.
        concat (map (\<lambda>item. [objname (snd item) @ ''_gaussian_map.png'',
                                col_name row @ ''_gaussian_map.png''])
          (filter (\<lambda>item. frbname (snd item) = col_name row)
             [(201, \<lparr> frbname = ''FRB20230505C'', objname = ''2023aaa'', radeg = 15, decdeg = 25 \<rparr>),
       (202, \<lparr> frbname = ''FRB20230606D'', objname = ''2023bbb'', radeg = 35, decdeg = 45 \<rparr>)])))
        (filter (\<lambda>row. col_include row = ''yes'')
           [\<lparr> col_name = ''FRB20230505C'', col_ra_frb = 15, col_dec_frb = 25, col_theta = - 90,
         col_a_err = 3, col_b_err = 0, col_include = ''yes'' \<rparr>,
            \<lparr> col_name = ''FRB20230606D'', col_ra_frb = 35, col_dec_frb = 45, col_theta = - 90,
         col_a_err = 2, col_b_err = 1, col_include = ''yes'' \<rparr>]))
     = [''2023aaa_gaussian_map.png'', ''FRB20230505C_gaussian_map.png'',
        ''2023bbb_gaussian_map.png'', ''FRB20230606D_gaussian_map.png'']"
proof
  have "frb_plots eigh_diag (''FRB20230505C'', 15, 25, - 90, 3, 0)
      [(201, \<lparr> frbname = ''FRB20230505C'', objname = ''2023aaa'', radeg = 15, decdeg = 25 \<rparr>),
       (202, \<lparr> frbname = ''FRB20230606D'', objname = ''2023bbb'', radeg = 35, decdeg = 45 \<rparr>)] [] = ([], Some LinAlgError)"
    by (rule frb_plots_singular) simp_all
  then show "map fst (fst (main eigh_diag
      [(201, \<lparr> frbname = ''FRB20230505C'', objname = ''2023aaa'', radeg = 15, decdeg = 25 \<rparr>),
       (202, \<lparr> frbname = ''FRB20230606D'', objname = ''2023bbb'', radeg = 35, decdeg = 45 \<rparr>)]
      [\<lparr> col_name = ''FRB20230505C'', col_ra_frb = 15, col_dec_frb = 25, col_theta = - 90,
         col_a_err = 3, col_b_err = 0, col_include = ''yes'' \<rparr>,
       \<lparr> col_name = ''FRB20230606D'', col_ra_frb = 35, col_dec_frb = 45, col_theta = - 90,
         col_a_err = 2, col_b_err = 1, col_include = ''yes'' \<rparr>]
      0 0 0 0 0 False)) = []"
    by (simp add: main_batch)
next
  show "concat (map (\<lambda>row.
        concat (map (\<lambda>item. [objname (snd item) @ ''_gaussian_map.png'',
                                col_name row @ ''_gaussian_map.png''])
          (filter (\<lambda>item. frbname (snd item) = col_name row)
             [(201, \<lparr> frbname = ''FRB20230505C'', objname = ''2023aaa'', radeg = 15, decdeg = 25 \<rparr>),
       (202, \<lparr> frbname = ''FRB20230606D'', objname = ''2023bbb'', radeg = 35, decdeg = 45 \<rparr>)])))
        (filter (\<lambda>row. col_include row = ''yes'')
           [\<lparr> col_name = ''FRB20230505C'', col_ra_frb = 15, col_dec_frb = 25, col_theta = - 90,
         col_a_err = 3, col_b_err = 0, col_include = ''yes'' \<rparr>,
            \<lparr> col_name = ''FRB20230606D'', col_ra_frb = 35, col_dec_frb = 45, col_theta = - 90,
         col_a_err = 2, col_b_err = 1, col_include = ''yes'' \<rparr>]))
     = [''2023aaa_gaussian_map.png'', ''FRB20230505C_gaussian_map.png'',
        ''2023bbb_gaussian_map.png'', ''FRB20230606D_gaussian_map.png'']"
    by simp
qed

lemma frb_plots_no_match:
  assumes "\<forall>item \<in> set tm. frbname (snd item) \<noteq> n"
  shows "frb_plots eigh (n, r, d, t, a, b) tm files = (files, None)"
  using assms by (induction tm) auto

lemma batch_plots_skip:
  assumes "\<And>files. frb_plots eigh frb tm files = (files, None)"
  shows "batch_plots eigh (xs @ frb # ys) tm fs = batch_plots eigh (xs @ ys) tm fs"
  by (simp add: batch_plots_append assms split: prod.split option.split)

text \<open>
  C4, amended. In batch mode the exception of a singular covariance matrix is not caught.
  Take an included entry whose covariance matrix is singular as computed (\<open>a = b = 0\<close>, or
  \<open>a = 0\<close> or \<open>b = 0\<close> at position angle -90, where the rotation is the identity) and that
  has a matched transient. When the entries before it have been processed, the run ends
  there with \<^verbatim>\<open>LinAlgError\<close>: the files saved so far are all there is, whatever entries
  follow. An entry without a matched transient changes nothing, whatever its axes.
\<close>

theorem batch_singular_aborts:
  "(col_include row = ''yes''
      \<and> ((col_a_err row = 0 \<and> col_b_err row = 0)
           \<or> (col_theta row = - 90 \<and> (col_a_err row = 0 \<or> col_b_err row = 0)))
      \<and> (\<exists>item \<in> set tm. frbname (snd item) = col_name row)
      \<and> main eigh tm pre ra dec theta a b False = (files, None)
    \<longrightarrow> main eigh tm (pre @ row # post) ra dec theta a b False = (files, Some LinAlgError))
   \<and> ((\<forall>item \<in> set tm. frbname (snd item) \<noteq> col_name row)
    \<longrightarrow> main eigh tm (pre @ row # post) ra dec theta a b False
          = main eigh tm (pre @ post) ra dec theta a b False)"
proof (intro conjI impI)
  let ?tuple = "\<lambda>row. (col_name row, col_ra_frb row, col_dec_frb row, col_theta row,
                      col_a_err row, col_b_err row)"
  let ?rows = "\<lambda>f. map ?tuple (filter (\<lambda>row. col_include row = ''yes'') f)"
  assume h: "col_include row = ''yes''
      \<and> ((col_a_err row = 0 \<and> col_b_err row = 0)
           \<or> (col_theta row = - 90 \<and> (col_a_err row = 0 \<or> col_b_err row = 0)))
      \<and> (\<exists>item \<in> set tm. frbname (snd item) = col_name row)
      \<and> main eigh tm pre ra dec theta a b False = (files, None)"
  then have inc: "col_include row = ''yes''"
    and sing: "col_a_err row = 0 \<or> col_b_err row = 0"
    and m: "\<exists>item \<in> set tm. frbname (snd item) = col_name row"
    and pre0: "main eigh tm pre ra dec theta a b False = (files, None)"
    by auto
  have pre: "batch_plots eigh (?rows pre) tm [] = (files, None)"
    using pre0 by (simp only: main_batch)
  have split: "?rows (pre @ row # post) = ?rows pre @ (?tuple row # ?rows post)"
    using inc by simp
  have "frb_plots eigh (?tuple row) tm files = (files, Some LinAlgError)"
    by (rule frb_plots_singular [OF sing m])
  then have "batch_plots eigh (?tuple row # ?rows post) tm files = (files, Some LinAlgError)"
    by simp
  then have "batch_plots eigh (?rows (pre @ row # post)) tm [] = (files, Some LinAlgError)"
    using pre by (simp only: split batch_plots_append) simp
  then show "main eigh tm (pre @ row # post) ra dec theta a b False = (files, Some LinAlgError)"
    by (simp only: main_batch)
next
  let ?tuple = "\<lambda>row. (col_name row, col_ra_frb row, col_dec_frb row, col_theta row,
                      col_a_err row, col_b_err row)"
  let ?rows = "\<lambda>f. map ?tuple (filter (\<lambda>row. col_include row = ''yes'') f)"
  assume nm: "\<forall>item \<in> set tm. frbname (snd item) \<noteq> col_name row"
  have skip: "batch_plots eigh (?rows pre @ ?tuple row # ?rows post) tm []
                = batch_plots eigh (?rows pre @ ?rows post) tm []"
    by (rule batch_plots_skip) (rule frb_plots_no_match [OF nm])
  have "batch_plots eigh (?rows (pre @ row # post)) tm []
          = batch_plots eigh (?rows (pre @ post)) tm []"
  proof (cases "col_include row = ''yes''")
    case True
    then show ?thesis using skip by simp
  next
    case False
    then show ?thesis by simp
  qed
  then show "main eigh tm (pre @ row # post) ra dec theta a b False
          = main eigh tm (pre @ post) ra dec theta a b False"
    by (simp only: main_batch)
qed

text \<open>
  A catalogue of two FRBs, each with one matched transient. The first has semi-minor
  axis 0: the run ends with the exception and has saved nothing, although the second
  FRB alone is processed without failure.
\<close>

theorem batch_singular_counterexample:
  "main eigh_diag
      [(101, \<lparr> frbname = ''FRB20240101A'', objname = ''2024abc'', radeg = 10, decdeg = 20 \<rparr>),
       (102, \<lparr> frbname = ''FRB20240202B'', objname = ''2024xyz'', radeg = 30, decdeg = 40 \<rparr>)]
      [\<lparr> col_name = ''FRB20240101A'', col_ra_frb = 10, col_dec_frb = 20, col_theta = - 90,
         col_a_err = 1, col_b_err = 0, col_include = ''yes'' \<rparr>,
       \<lparr> col_name = ''FRB20240202B'', col_ra_frb = 30, col_dec_frb = 40, col_theta = - 90,
         col_a_err = 2, col_b_err = 1, col_include = ''yes'' \<rparr>]
      0 0 0 0 0 False
     = ([], Some LinAlgError)
   \<and> map fst (fst (main eigh_diag
      [(101, \<lparr> frbname = ''FRB20240101A'', objname = ''2024abc'', radeg = 10, decdeg = 20 \<rparr>),
       (102, \<lparr> frbname = ''FRB20240202B'', objname = ''2024xyz'', radeg = 30, decdeg = 40 \<rparr>)]
      [\<lparr> col_name = ''FRB20240202B'', col_ra_frb = 30, col_dec_frb = 40, col_theta = - 90,
         col_a_err = 2, col_b_err = 1, col_include = ''yes'' \<rparr>]
      0 0 0 0 0 False))
     = [''2024xyz_gaussian_map.png'', ''FRB20240202B_gaussian_map.png'']"
proof
  have "frb_plots eigh_diag (''FRB20240101A'', 10, 20, - 90, 1, 0)
      [(101, \<lparr> frbname = ''FRB20240101A'', objname = ''2024abc'', radeg = 10, decdeg = 20 \<rparr>),
       (102, \<lparr> frbname = ''FRB20240202B'', objname = ''2024xyz'', radeg = 30, decdeg = 40 \<rparr>)] [] = ([], Some LinAlgError)"
    by (rule frb_plots_singular) simp_all
  then show "main eigh_diag
      [(101, \<lparr> frbname = ''FRB20240101A'', objname = ''2024abc'', radeg = 10, decdeg = 20 \<rparr>),
       (102, \<lparr> frbname = ''FRB20240202B'', objname = ''2024xyz'', radeg = 30, decdeg = 40 \<rparr>)]
      [\<lparr> col_name = ''FRB20240101A'', col_ra_frb = 10, col_dec_frb = 20, col_theta = - 90,
         col_a_err = 1, col_b_err = 0, col_include = ''yes'' \<rparr>,
       \<lparr> col_name = ''FRB20240202B'', col_ra_frb = 30, col_dec_frb = 40, col_theta = - 90,
         col_a_err = 2, col_b_err = 1, col_include = ''yes'' \<rparr>]
      0 0 0 0 0 False
     = ([], Some LinAlgError)"
    by (simp add: main_batch)
next
  have "\<forall>frb \<in> set [(''FRB20240202B'', 30 :: real, 40 :: real, - 90 :: real, 2 :: real, 1 :: real)].
          fst (snd (snd (snd (snd frb)))) \<noteq> 0 \<and> snd (snd (snd (snd (snd frb)))) \<noteq> 0"
    by simp
  from batch_plots_regular [OF this, of eigh_diag
      "[(101, \<lparr> frbname = ''FRB20240101A'', objname = ''2024abc'', radeg = 10, decdeg = 20 \<rparr>),
       (102, \<lparr> frbname = ''FRB20240202B'', objname = ''2024xyz'', radeg = 30, decdeg = 40 \<rparr>)]" "[]"]
  show "map fst (fst (main eigh_diag
      [(101, \<lparr> frbname = ''FRB20240101A'', objname = ''2024abc'', radeg = 10, decdeg = 20 \<rparr>),
       (102, \<lparr> frbname = ''FRB20240202B'', objname = ''2024xyz'', radeg = 30, decdeg = 40 \<rparr>)]
      [\<lparr> col_name = ''FRB20240202B'', col_ra_frb = 30, col_dec_frb = 40, col_theta = - 90,
         col_a_err = 2, col_b_err = 1, col_include = ''yes'' \<rparr>]
      0 0 0 0 0 False))
     = [''2024xyz_gaussian_map.png'', ''FRB20240202B_gaussian_map.png'']"
    by (auto simp add: main_batch)
qed

theorem batch_singular_aborts_witness:
  "col_include \<lparr> col_name = ''FRB20240101A'', col_ra_frb = 10, col_dec_frb = 20, col_theta = - 90,
         col_a_err = 1, col_b_err = 0, col_include = ''yes'' \<rparr> = ''yes''
   \<and> col_theta \<lparr> col_name = ''FRB20240101A'', col_ra_frb = 10, col_dec_frb = 20, col_theta = - 90,
         col_a_err = 1, col_b_err = 0, col_include = ''yes'' \<rparr> = - 90
   \<and> col_b_err \<lparr> col_name = ''FRB20240101A'', col_ra_frb = 10, col_dec_frb = 20, col_theta = - 90,
         col_a_err = 1, col_b_err = 0, col_include = ''yes'' \<rparr> = 0
   \<and> frbname (snd (101 :: int, \<lparr> frbname = ''FRB20240101A'', objname = ''2024abc'', radeg = 10, decdeg = 20 \<rparr>))
       = col_name \<lparr> col_name = ''FRB20240101A'', col_ra_frb = 10, col_dec_frb = 20, col_theta = - 90,
         col_a_err = 1, col_b_err = 0, col_include = ''yes'' \<rparr>
   \<and> main eigh_diag
      [(101, \<lparr> frbname = ''FRB20240101A'', objname = ''2024abc'', radeg = 10, decdeg = 20 \<rparr>),
       (102, \<lparr> frbname = ''FRB20240202B'', objname = ''2024xyz'', radeg = 30, decdeg = 40 \<rparr>)] [] 0 0 0 0 0 False = ([], None)
   \<and> main eigh_diag
      [(101, \<lparr> frbname = ''FRB20240101A'', objname = ''2024abc'', radeg = 10, decdeg = 20 \<rparr>),
       (102, \<lparr> frbname = ''FRB20240202B'', objname = ''2024xyz'', radeg = 30, decdeg = 40 \<rparr>)]
      ([] @ \<lparr> col_name = ''FRB20240101A'', col_ra_frb = 10, col_dec_frb = 20, col_theta = - 90,
         col_a_err = 1, col_b_err = 0, col_include = ''yes'' \<rparr> #
       [\<lparr> col_name = ''FRB20240202B'', col_ra_frb = 30, col_dec_frb = 40, col_theta = - 90,
         col_a_err = 2, col_b_err = 1, col_include = ''yes'' \<rparr>])
      0 0 0 0 0 False
     = ([], Some LinAlgError)
   \<and> ''FRB20240101A'' \<noteq> col_name \<lparr> col_name = ''FRB20240303C'', col_ra_frb = 50, col_dec_frb = 60, col_theta = 30,
         col_a_err = 1, col_b_err = 0, col_include = ''yes'' \<rparr>
   \<and> ''FRB20240202B'' \<noteq> col_name \<lparr> col_name = ''FRB20240303C'', col_ra_frb = 50, col_dec_frb = 60, col_theta = 30,
         col_a_err = 1, col_b_err = 0, col_include = ''yes'' \<rparr>
   \<and> main eigh_diag
      [(101, \<lparr> frbname = ''FRB20240101A'', objname = ''2024abc'', radeg = 10, decdeg = 20 \<rparr>),
       (102, \<lparr> frbname = ''FRB20240202B'', objname = ''2024xyz'', radeg = 30, decdeg = 40 \<rparr>)]
      ([] @ \<lparr> col_name = ''FRB20240303C'', col_ra_frb = 50, col_dec_frb = 60, col_theta = 30,
         col_a_err = 1, col_b_err = 0, col_include = ''yes'' \<rparr> #
       [\<lparr> col_name = ''FRB20240202B'', col_ra_frb = 30, col_dec_frb = 40, col_theta = - 90,
         col_a_err = 2, col_b_err = 1, col_include = ''yes'' \<rparr>])
      0 0 0 0 0 False
     = main eigh_diag
      [(101, \<lparr> frbname = ''FRB20240101A'', objname = ''2024abc'', radeg = 10, decdeg = 20 \<rparr>),
       (102, \<lparr> frbname = ''FRB20240202B'', objname = ''2024xyz'', radeg = 30, decdeg = 40 \<rparr>)]
      ([] @ [\<lparr> col_name = ''FRB20240202B'', col_ra_frb = 30, col_dec_frb = 40, col_theta = - 90,
         col_a_err = 2, col_b_err = 1, col_include = ''yes'' \<rparr>])
      0 0 0 0 0 False"
proof -
  have h1: "col_include \<lparr> col_name = ''FRB20240101A'', col_ra_frb = 10, col_dec_frb = 20, col_theta = - 90,
         col_a_err = 1, col_b_err = 0, col_include = ''yes'' \<rparr> = ''yes''" by simp
  have h2: "(col_a_err \<lparr> col_name = ''FRB20240101A'', col_ra_frb = 10, col_dec_frb = 20, col_theta = - 90,
         col_a_err = 1, col_b_err = 0, col_include = ''yes'' \<rparr> = 0 \<and> col_b_err \<lparr> col_name = ''FRB20240101A'', col_ra_frb = 10, col_dec_frb = 20, col_theta = - 90,
         col_a_err = 1, col_b_err = 0, col_include = ''yes'' \<rparr> = 0)
           \<or> (col_theta \<lparr> col_name = ''FRB20240101A'', col_ra_frb = 10, col_dec_frb = 20, col_theta = - 90,
         col_a_err = 1, col_b_err = 0, col_include = ''yes'' \<rparr> = - 90
               \<and> (col_a_err \<lparr> col_name = ''FRB20240101A'', col_ra_frb = 10, col_dec_frb = 20, col_theta = - 90,
         col_a_err = 1, col_b_err = 0, col_include = ''yes'' \<rparr> = 0 \<or> col_b_err \<lparr> col_name = ''FRB20240101A'', col_ra_frb = 10, col_dec_frb = 20, col_theta = - 90,
         col_a_err = 1, col_b_err = 0, col_include = ''yes'' \<rparr> = 0))" by simp
  have h3: "\<exists>item \<in> set [(101, \<lparr> frbname = ''FRB20240101A'', objname = ''2024abc'', radeg = 10, decdeg = 20 \<rparr>),
       (102, \<lparr> frbname = ''FRB20240202B'', objname = ''2024xyz'', radeg = 30, decdeg = 40 \<rparr>)].
         frbname (snd item) = col_name \<lparr> col_name = ''FRB20240101A'', col_ra_frb = 10, col_dec_frb = 20, col_theta = - 90,
         col_a_err = 1, col_b_err = 0, col_include = ''yes'' \<rparr>" by simp
  have h4: "main eigh_diag
      [(101, \<lparr> frbname = ''FRB20240101A'', objname = ''2024abc'', radeg = 10, decdeg = 20 \<rparr>),
       (102, \<lparr> frbname = ''FRB20240202B'', objname = ''2024xyz'', radeg = 30, decdeg = 40 \<rparr>)] [] 0 0 0 0 0 False = ([], None)"
    by (simp add: main_batch)
  have h5: "\<forall>item \<in> set [(101, \<lparr> frbname = ''FRB20240101A'', objname = ''2024abc'', radeg = 10, decdeg = 20 \<rparr>),
       (102, \<lparr> frbname = ''FRB20240202B'', objname = ''2024xyz'', radeg = 30, decdeg = 40 \<rparr>)].
         frbname (snd item) \<noteq> col_name \<lparr> col_name = ''FRB20240303C'', col_ra_frb = 50, col_dec_frb = 60, col_theta = 30,
         col_a_err = 1, col_b_err = 0, col_include = ''yes'' \<rparr>" by simp
  have a: "main eigh_diag
      [(101, \<lparr> frbname = ''FRB20240101A'', objname = ''2024abc'', radeg = 10, decdeg = 20 \<rparr>),
       (102, \<lparr> frbname = ''FRB20240202B'', objname = ''2024xyz'', radeg = 30, decdeg = 40 \<rparr>)]
      ([] @ \<lparr> col_name = ''FRB20240101A'', col_ra_frb = 10, col_dec_frb = 20, col_theta = - 90,
         col_a_err = 1, col_b_err = 0, col_include = ''yes'' \<rparr> #
       [\<lparr> col_name = ''FRB20240202B'', col_ra_frb = 30, col_dec_frb = 40, col_theta = - 90,
         col_a_err = 2, col_b_err = 1, col_include = ''yes'' \<rparr>])
      0 0 0 0 0 False
     = ([], Some LinAlgError)"
    using batch_singular_aborts [of "\<lparr> col_name = ''FRB20240101A'', col_ra_frb = 10, col_dec_frb = 20, col_theta = - 90,
         col_a_err = 1, col_b_err = 0, col_include = ''yes'' \<rparr>"
        "[(101, \<lparr> frbname = ''FRB20240101A'', objname = ''2024abc'', radeg = 10, decdeg = 20 \<rparr>),
       (102, \<lparr> frbname = ''FRB20240202B'', objname = ''2024xyz'', radeg = 30, decdeg = 40 \<rparr>)]" eigh_diag "[]" 0 0 0 0 0 "[]"
        "[\<lparr> col_name = ''FRB20240202B'', col_ra_frb = 30, col_dec_frb = 40, col_theta = - 90,
         col_a_err = 2, col_b_err = 1, col_include = ''yes'' \<rparr>]"] h1 h2 h3 h4
    by blast
  have b: "main eigh_diag
      [(101, \<lparr> frbname = ''FRB20240101A'', objname = ''2024abc'', radeg = 10, decdeg = 20 \<rparr>),
       (102, \<lparr> frbname = ''FRB20240202B'', objname = ''2024xyz'', radeg = 30, decdeg = 40 \<rparr>)]
      ([] @ \<lparr> col_name = ''FRB20240303C'', col_ra_frb = 50, col_dec_frb = 60, col_theta = 30,
         col_a_err = 1, col_b_err = 0, col_include = ''yes'' \<rparr> #
       [\<lparr> col_name = ''FRB20240202B'', col_ra_frb = 30, col_dec_frb = 40, col_theta = - 90,
         col_a_err = 2, col_b_err = 1, col_include = ''yes'' \<rparr>])
      0 0 0 0 0 False
     = main eigh_diag
      [(101, \<lparr> frbname = ''FRB20240101A'', objname = ''2024abc'', radeg = 10, decdeg = 20 \<rparr>),
       (102, \<lparr> frbname = ''FRB20240202B'', objname = ''2024xyz'', radeg = 30, decdeg = 40 \<rparr>)]
      ([] @ [\<lparr> col_name = ''FRB20240202B'', col_ra_frb = 30, col_dec_frb = 40, col_theta = - 90,
         col_a_err = 2, col_b_err = 1, col_include = ''yes'' \<rparr>])
      0 0 0 0 0 False"
    using batch_singular_aborts [of "\<lparr> col_name = ''FRB20240303C'', col_ra_frb = 50, col_dec_frb = 60, col_theta = 30,
         col_a_err = 1, col_b_err = 0, col_include = ''yes'' \<rparr>"
        "[(101, \<lparr> frbname = ''FRB20240101A'', objname = ''2024abc'', radeg = 10, decdeg = 20 \<rparr>),
       (102, \<lparr> frbname = ''FRB20240202B'', objname = ''2024xyz'', radeg = 30, decdeg = 40 \<rparr>)]" eigh_diag "[]" 0 0 0 0 0 "[]"
        "[\<lparr> col_name = ''FRB20240202B'', col_ra_frb = 30, col_dec_frb = 40, col_theta = - 90,
         col_a_err = 2, col_b_err = 1, col_include = ''yes'' \<rparr>]"] h5
    by blast
  from a b h4 show ?thesis by simp
qed

theorem match_processing_witness:
  "col_a_err \<lparr> col_name = ''FRB20240202B'', col_ra_frb = 30, col_dec_frb = 40, col_theta = - 90,
         col_a_err = 2, col_b_err = 1, col_include = ''yes'' \<rparr> \<noteq> 0
   \<and> col_b_err \<lparr> col_name = ''FRB20240202B'', col_ra_frb = 30, col_dec_frb = 40, col_theta = - 90,
         col_a_err = 2, col_b_err = 1, col_include = ''yes'' \<rparr> \<noteq> 0
   \<and> col_include \<lparr> col_name = ''FRB20240101A'', col_ra_frb = 10, col_dec_frb = 20, col_theta = - 90,
         col_a_err = 1, col_b_err = 0, col_include = ''no'' \<rparr> \<noteq> ''yes''
   \<and> (2 :: real) \<noteq> 0 \<and> (1 :: real) \<noteq> 0
   \<and> map fst (fst (main eigh_diag
      [(101, \<lparr> frbname = ''FRB20240202B'', objname = ''2024abc'', radeg = 30, decdeg = 40 \<rparr>),
       (102, \<lparr> frbname = ''FRB20240202B'', objname = ''2024xyz'', radeg = 30, decdeg = 40 \<rparr>)]
      [\<lparr> col_name = ''FRB20240202B'', col_ra_frb = 30, col_dec_frb = 40, col_theta = - 90,
         col_a_err = 2, col_b_err = 1, col_include = ''yes'' \<rparr>,
       \<lparr> col_name = ''FRB20240101A'', col_ra_frb = 10, col_dec_frb = 20, col_theta = - 90,
         col_a_err = 1, col_b_err = 0, col_include = ''no'' \<rparr>]
      30 40 (- 90) 2 1 True))
     = [''2024abc_gaussian_map.png'']
   \<and> map fst (fst (main eigh_diag
      [(101, \<lparr> frbname = ''FRB20240202B'', objname = ''2024abc'', radeg = 30, decdeg = 40 \<rparr>),
       (102, \<lparr> frbname = ''FRB20240202B'', objname = ''2024xyz'', radeg = 30, decdeg = 40 \<rparr>)]
      [\<lparr> col_name = ''FRB20240202B'', col_ra_frb = 30, col_dec_frb = 40, col_theta = - 90,
         col_a_err = 2, col_b_err = 1, col_include = ''yes'' \<rparr>,
       \<lparr> col_name = ''FRB20240101A'', col_ra_frb = 10, col_dec_frb = 20, col_theta = - 90,
         col_a_err = 1, col_b_err = 0, col_include = ''no'' \<rparr>]
      30 40 (- 90) 2 1 False))
     = [''2024abc_gaussian_map.png'', ''FRB20240202B_gaussian_map.png'',
        ''2024xyz_gaussian_map.png'', ''FRB20240202B_gaussian_map.png'']"
proof -
  have h1: "\<forall>row \<in> set [\<lparr> col_name = ''FRB20240202B'', col_ra_frb = 30, col_dec_frb = 40, col_theta = - 90,
         col_a_err = 2, col_b_err = 1, col_include = ''yes'' \<rparr>,
       \<lparr> col_name = ''FRB20240101A'', col_ra_frb = 10, col_dec_frb = 20, col_theta = - 90,
         col_a_err = 1, col_b_err = 0, col_include = ''no'' \<rparr>].
       col_include row = ''yes'' \<longrightarrow> col_a_err row \<noteq> 0 \<and> col_b_err row \<noteq> 0" by simp
  have h2: "(2 :: real) \<noteq> 0 \<and> (1 :: real) \<noteq> 0" by simp
  from match_processing [where a = 2 and b = 1 and eigh = eigh_diag and ra = 30 and dec = 40
      and theta = "- 90"
      and tm = "[(101, \<lparr> frbname = ''FRB20240202B'', objname = ''2024abc'', radeg = 30, decdeg = 40 \<rparr>),
       (102, \<lparr> frbname = ''FRB20240202B'', objname = ''2024xyz'', radeg = 30, decdeg = 40 \<rparr>)]"
      and f = "[\<lparr> col_name = ''FRB20240202B'', col_ra_frb = 30, col_dec_frb = 40, col_theta = - 90,
         col_a_err = 2, col_b_err = 1, col_include = ''yes'' \<rparr>,
       \<lparr> col_name = ''FRB20240101A'', col_ra_frb = 10, col_dec_frb = 20, col_theta = - 90,
         col_a_err = 1, col_b_err = 0, col_include = ''no'' \<rparr>]"] h1 h2
  show ?thesis by simp
qed

subsection \<open>Contours and the confidence at their points\<close>


















end
